theory Spec2Isabelle
  imports Complex_Main
begin

section \<open>Data model\<close>

text \<open>
  The six flags of \<^verbatim>\<open>interface PlayerInputState\<close> (PlayerController source, lines 7-14).
\<close>

record PlayerInputState =
  forward :: bool
  backward :: bool
  left :: bool
  right :: bool
  jump :: bool
  shoot :: bool

text \<open>
  The fields of a \<^verbatim>\<open>PlayerController\<close> object (lines 25-35). The numbers of the
  source are JavaScript numbers; their values are reals, and the rounding of double
  arithmetic is written out where a vector is normalized. The reference
  \<^verbatim>\<open>controlledPawn\<close> is read-only, the object it points to lives in the world below.
\<close>

record PlayerController =
  moveSpeed :: real
  airControlModifier :: real
  inputState :: PlayerInputState

section \<open>Key handlers and manual setters\<close>

text \<open>
  \<^verbatim>\<open>onKeyDown\<close> (lines 155-164) and \<^verbatim>\<open>onKeyUp\<close> (lines 166-175): a switch over
  \<^verbatim>\<open>event.code\<close>; a code with no case label falls out of the switch. The argument
  is the event's \<^verbatim>\<open>code\<close> string, the only field of the event that is read.
\<close>

definition onKeyDown :: "string \<Rightarrow> PlayerController \<Rightarrow> PlayerController" where
  "onKeyDown code c =
     (if code = ''KeyW'' \<or> code = ''ArrowUp'' then c\<lparr>inputState := (inputState c)\<lparr>forward := True\<rparr>\<rparr>
      else if code = ''KeyS'' \<or> code = ''ArrowDown'' then c\<lparr>inputState := (inputState c)\<lparr>backward := True\<rparr>\<rparr>
      else if code = ''KeyA'' \<or> code = ''ArrowLeft'' then c\<lparr>inputState := (inputState c)\<lparr>left := True\<rparr>\<rparr>
      else if code = ''KeyD'' \<or> code = ''ArrowRight'' then c\<lparr>inputState := (inputState c)\<lparr>right := True\<rparr>\<rparr>
      else if code = ''Space'' then c\<lparr>inputState := (inputState c)\<lparr>jump := True\<rparr>\<rparr>
      else if code = ''Mouse0'' \<or> code = ''Enter'' then c\<lparr>inputState := (inputState c)\<lparr>shoot := True\<rparr>\<rparr>
      else c)"

definition onKeyUp :: "string \<Rightarrow> PlayerController \<Rightarrow> PlayerController" where
  "onKeyUp code c =
     (if code = ''KeyW'' \<or> code = ''ArrowUp'' then c\<lparr>inputState := (inputState c)\<lparr>forward := False\<rparr>\<rparr>
      else if code = ''KeyS'' \<or> code = ''ArrowDown'' then c\<lparr>inputState := (inputState c)\<lparr>backward := False\<rparr>\<rparr>
      else if code = ''KeyA'' \<or> code = ''ArrowLeft'' then c\<lparr>inputState := (inputState c)\<lparr>left := False\<rparr>\<rparr>
      else if code = ''KeyD'' \<or> code = ''ArrowRight'' then c\<lparr>inputState := (inputState c)\<lparr>right := False\<rparr>\<rparr>
      else if code = ''Space'' then c\<lparr>inputState := (inputState c)\<lparr>jump := False\<rparr>\<rparr>
      else if code = ''Mouse0'' \<or> code = ''Enter'' then c\<lparr>inputState := (inputState c)\<lparr>shoot := False\<rparr>\<rparr>
      else c)"

text \<open>
  The manual setters (lines 76-79). The abstract base class declares them with
  parameters \<^verbatim>\<open>(speed, dt)\<close>; the implementations take none.
\<close>

definition moveForward :: "PlayerController \<Rightarrow> PlayerController" where
  "moveForward c = c\<lparr>inputState := (inputState c)\<lparr>forward := True\<rparr>\<rparr>"

definition moveBackward :: "PlayerController \<Rightarrow> PlayerController" where
  "moveBackward c = c\<lparr>inputState := (inputState c)\<lparr>backward := True\<rparr>\<rparr>"

definition moveLeft :: "PlayerController \<Rightarrow> PlayerController" where
  "moveLeft c = c\<lparr>inputState := (inputState c)\<lparr>left := True\<rparr>\<rparr>"

definition moveRight :: "PlayerController \<Rightarrow> PlayerController" where
  "moveRight c = c\<lparr>inputState := (inputState c)\<lparr>right := True\<rparr>\<rparr>"

subsection \<open>The key table as the specification words it\<close>

text \<open>
  The specification's table of section 4.1: a logical action per key, and the two
  operations \<^verbatim>\<open>setKeyDown(logicalAction)\<close> and \<^verbatim>\<open>setKeyUp(logicalAction)\<close>, here
  one function \<open>setFlag\<close> with the value to store. These follow the specification,
  to be compared with the handlers above.
\<close>

datatype action = AForward | ABackward | ALeft | ARight | AJump | AShoot

definition keyBindings :: "(string \<times> action) list" where
  "keyBindings =
     [(''KeyW'', AForward), (''ArrowUp'', AForward),
      (''KeyS'', ABackward), (''ArrowDown'', ABackward),
      (''KeyA'', ALeft), (''ArrowLeft'', ALeft),
      (''KeyD'', ARight), (''ArrowRight'', ARight),
      (''Space'', AJump),
      (''Mouse0'', AShoot), (''Enter'', AShoot)]"

definition boundAction :: "string \<Rightarrow> action option" where
  "boundAction code = map_of keyBindings code"

fun flag :: "action \<Rightarrow> PlayerInputState \<Rightarrow> bool" where
  "flag AForward i = forward i"
| "flag ABackward i = backward i"
| "flag ALeft i = left i"
| "flag ARight i = right i"
| "flag AJump i = jump i"
| "flag AShoot i = shoot i"

fun setFlag :: "action \<Rightarrow> bool \<Rightarrow> PlayerInputState \<Rightarrow> PlayerInputState" where
  "setFlag AForward b i = i\<lparr>forward := b\<rparr>"
| "setFlag ABackward b i = i\<lparr>backward := b\<rparr>"
| "setFlag ALeft b i = i\<lparr>left := b\<rparr>"
| "setFlag ARight b i = i\<lparr>right := b\<rparr>"
| "setFlag AJump b i = i\<lparr>jump := b\<rparr>"
| "setFlag AShoot b i = i\<lparr>shoot := b\<rparr>"

definition applyKey :: "bool \<Rightarrow> string \<Rightarrow> PlayerController \<Rightarrow> PlayerController" where
  "applyKey b code c =
     (case boundAction code of
        None \<Rightarrow> c
      | Some a \<Rightarrow> c\<lparr>inputState := setFlag a b (inputState c)\<rparr>)"

section \<open>The controlled pawn, the window and the calls made on them\<close>

text \<open>
  \<^verbatim>\<open>Vector3D\<close> is imported from the engine core. The controller constructs it from
  three numbers and reads and writes its fields \<^verbatim>\<open>x\<close> and \<^verbatim>\<open>z\<close>; the fields are
  named \<open>vec_x\<close>, \<open>vec_y\<close> and \<open>vec_z\<close> here, so that \<open>x\<close>, \<open>y\<close> and \<open>z\<close> stay
  free for variables.
\<close>

record Vector3D =
  vec_x :: real
  vec_y :: real
  vec_z :: real

text \<open>
  The \<^verbatim>\<open>Player\<close> class is an external collaborator: the controller only calls its
  methods. It is taken as a parameter: a pawn state of any type \<open>'p\<close> and the six
  methods the controller calls on it. The three predicates read the pawn, the three
  commands change it; \<^verbatim>\<open>shoot\<close> also returns \<^verbatim>\<open>HitscanResult | undefined\<close>, the
  type \<open>'h option\<close>.
\<close>

record ('p, 'h) Player =
  isOnGround :: "'p \<Rightarrow> bool"
  canJump :: "'p \<Rightarrow> bool"
  canShoot :: "'p \<Rightarrow> bool"
  pawn_jump :: "'p \<Rightarrow> 'p"
  pawn_shoot :: "'p \<Rightarrow> 'h option \<times> 'p"
  move :: "Vector3D \<Rightarrow> real \<Rightarrow> real \<Rightarrow> 'p \<Rightarrow> 'p"

text \<open>
  Every call the controller makes on another object is recorded, in order, with the
  arguments it passes: the call of \<^verbatim>\<open>normalize\<close> on the direction vector (with the
  vector as it is before the call) and the calls on the pawn.
\<close>

datatype call =
    Vector3D_normalize Vector3D
  | Player_isOnGround
  | Player_move Vector3D real real
  | Player_canJump
  | Player_jump
  | Player_canShoot
  | Player_shoot

text \<open>
  The two bound functions \<^verbatim>\<open>onKeyDownHandler\<close> and \<^verbatim>\<open>onKeyUpHandler\<close> that the
  constructor creates once (lines 47-48) and hands to the window.
\<close>

datatype handler = OnKeyDownHandler | OnKeyUpHandler

text \<open>
  The world a controller lives in: the controller's own fields, the state of the pawn
  it references, the listeners of the window (per event type, in the order of their
  registration; only this controller's two handlers are tracked) and the calls made
  so far.
\<close>

record 'p world =
  controller :: PlayerController
  pawn :: 'p
  listeners :: "string \<Rightarrow> handler list"
  calls :: "call list"

text \<open>
  Modelled from the spec: the platform's input-event delivery is not part of the
  repository (specification, section 1: an assumed capability; section 6: the
  controller subscribes to key-down and key-up notifications and \<^verbatim>\<open>destroy\<close>
  unsubscribes). \<^verbatim>\<open>addEventListener\<close> appends a listener unless the same function is
  already registered for the type, \<^verbatim>\<open>removeEventListener\<close> takes that function off
  the type's list, and an event of a type is delivered to the listeners registered for
  that type, in order.
\<close>

definition addEventListener :: "string \<Rightarrow> handler \<Rightarrow> 'p world \<Rightarrow> 'p world" where
  "addEventListener ty h w =
     w\<lparr>listeners := (listeners w)(ty := (if h \<in> set (listeners w ty) then listeners w ty
                                          else listeners w ty @ [h]))\<rparr>"

definition removeEventListener :: "string \<Rightarrow> handler \<Rightarrow> 'p world \<Rightarrow> 'p world" where
  "removeEventListener ty h w = w\<lparr>listeners := (listeners w)(ty := removeAll h (listeners w ty))\<rparr>"

fun invoke :: "handler \<Rightarrow> string \<Rightarrow> PlayerController \<Rightarrow> PlayerController" where
  "invoke OnKeyDownHandler code c = onKeyDown code c"
| "invoke OnKeyUpHandler code c = onKeyUp code c"

definition dispatchEvent :: "string \<Rightarrow> string \<Rightarrow> 'p world \<Rightarrow> 'p world" where
  "dispatchEvent ty code w =
     w\<lparr>controller := fold (\<lambda>h. invoke h code) (listeners w ty) (controller w)\<rparr>"

section \<open>The controller\<close>

text \<open>\<^verbatim>\<open>startListening\<close> (lines 142-145) and \<^verbatim>\<open>stopListening\<close> (lines 150-153).\<close>

definition startListening :: "'p world \<Rightarrow> 'p world" where
  "startListening w =
     addEventListener ''keyup'' OnKeyUpHandler (addEventListener ''keydown'' OnKeyDownHandler w)"

definition stopListening :: "'p world \<Rightarrow> 'p world" where
  "stopListening w =
     removeEventListener ''keyup'' OnKeyUpHandler
       (removeEventListener ''keydown'' OnKeyDownHandler w)"

text \<open>
  The constructor (lines 42-51) with the field initialisers (lines 25-35): it stores
  the pawn, creates the two handlers (fresh functions, so the window cannot know them
  yet) and starts listening.
\<close>

definition newPlayerController :: "'p \<Rightarrow> 'p world" where
  "newPlayerController controlledPlayer =
     startListening
       \<lparr>controller =
          \<lparr>moveSpeed = 5.0, airControlModifier = 0.5,
           inputState = \<lparr>forward = False, backward = False, left = False, right = False,
                         jump = False, shoot = False\<rparr>\<rparr>,
        pawn = controlledPlayer,
        listeners = (\<lambda>ty. []),
        calls = []\<rparr>"

text \<open>\<^verbatim>\<open>destroy\<close> (lines 67-69).\<close>

definition destroy :: "'p world \<Rightarrow> 'p world" where
  "destroy w = stopListening w"

text \<open>
  \<^verbatim>\<open>jump\<close> (lines 81-88) and \<^verbatim>\<open>shoot\<close> (lines 90-95) of the controller, named
  \<open>ctrl_jump\<close> and \<open>ctrl_shoot\<close> since \<open>jump\<close> and \<open>shoot\<close> are the flags. Each returns
  its result and the world after the call.
\<close>

definition ctrl_jump :: "('p, 'h) Player \<Rightarrow> 'p world \<Rightarrow> bool \<times> 'p world" where
  "ctrl_jump P w =
     (let w1 = w\<lparr>calls := calls w @ [Player_canJump]\<rparr> in
      if canJump P (pawn w1)
      then (True, w1\<lparr>pawn := pawn_jump P (pawn w1), calls := calls w1 @ [Player_jump]\<rparr>)
      else (False, w1))"

definition ctrl_shoot :: "('p, 'h) Player \<Rightarrow> 'p world \<Rightarrow> 'h option \<times> 'p world" where
  "ctrl_shoot P w =
     (let w1 = w\<lparr>calls := calls w @ [Player_canShoot]\<rparr> in
      if canShoot P (pawn w1)
      then (fst (pawn_shoot P (pawn w1)),
            w1\<lparr>pawn := snd (pawn_shoot P (pawn w1)), calls := calls w1 @ [Player_shoot]\<rparr>)
      else (None, w1))"

text \<open>
  The first half of \<^verbatim>\<open>handleMovement\<close> (lines 104-109): the local variable
  \<^verbatim>\<open>moveDirection\<close> after the four conditional updates, before any normalization.
\<close>

definition moveDirection :: "PlayerInputState \<Rightarrow> Vector3D" where
  "moveDirection i =
     (let d0 = \<lparr>vec_x = 0, vec_y = 0, vec_z = 0\<rparr>;
          d1 = (if forward i then d0\<lparr>vec_z := vec_z d0 + 1\<rparr> else d0);
          d2 = (if backward i then d1\<lparr>vec_z := vec_z d1 - 1\<rparr> else d1);
          d3 = (if right i then d2\<lparr>vec_x := vec_x d2 + 1\<rparr> else d2);
          d4 = (if left i then d3\<lparr>vec_x := vec_x d3 - 1\<rparr> else d3)
      in d4)"

text \<open>
  \<^verbatim>\<open>handleMovement\<close> (lines 103-123). \<^verbatim>\<open>Vector3D.normalize\<close> is not part of the
  sources at hand and is the parameter \<open>N\<close>: the value of the vector after the call, as
  a function of its value before.
\<close>

definition handleMovement ::
  "(Vector3D \<Rightarrow> Vector3D) \<Rightarrow> ('p, 'h) Player \<Rightarrow> real \<Rightarrow> 'p world \<Rightarrow> 'p world" where
  "handleMovement N P dt w =
     (let d = moveDirection (inputState (controller w)) in
      if vec_x d \<noteq> 0 \<or> vec_z d \<noteq> 0
      then
        (let d' = N d;
             w1 = w\<lparr>calls := calls w @ [Vector3D_normalize d]\<rparr>;
             onGround = isOnGround P (pawn w1);
             w2 = w1\<lparr>calls := calls w1 @ [Player_isOnGround]\<rparr>;
             currentSpeed = (if onGround then moveSpeed (controller w2)
                             else moveSpeed (controller w2) * airControlModifier (controller w2))
         in w2\<lparr>pawn := move P d' currentSpeed dt (pawn w2),
                calls := calls w2 @ [Player_move d' currentSpeed dt]\<rparr>)
      else w)"

text \<open>\<^verbatim>\<open>handleActions\<close> (lines 128-137) and \<^verbatim>\<open>update\<close> (lines 58-61).\<close>

definition handleActions :: "('p, 'h) Player \<Rightarrow> 'p world \<Rightarrow> 'p world" where
  "handleActions P w =
     (let w1 = (if jump (inputState (controller w)) then snd (ctrl_jump P w) else w);
          w2 = (if shoot (inputState (controller w1)) then snd (ctrl_shoot P w1) else w1)
      in w2)"

definition update ::
  "(Vector3D \<Rightarrow> Vector3D) \<Rightarrow> ('p, 'h) Player \<Rightarrow> real \<Rightarrow> 'p world \<Rightarrow> 'p world" where
  "update N P dt w = handleActions P (handleMovement N P dt w)"

section \<open>Observing the calls of one operation\<close>

text \<open>The calls made between a world and a later one.\<close>

definition issued :: "'p world \<Rightarrow> 'p world \<Rightarrow> call list" where
  "issued w w' = drop (length (calls w)) (calls w')"

fun moveArgs :: "call \<Rightarrow> (Vector3D \<times> real \<times> real) option" where
  "moveArgs (Player_move d speed dt) = Some (d, speed, dt)"
| "moveArgs _ = None"

fun normalizeArg :: "call \<Rightarrow> Vector3D option" where
  "normalizeArg (Vector3D_normalize d) = Some d"
| "normalizeArg _ = None"

text \<open>The move commands among some calls, and the vectors that were normalized.\<close>

definition moves :: "call list \<Rightarrow> (Vector3D \<times> real \<times> real) list" where
  "moves cs = List.map_filter moveArgs cs"

definition normalized :: "call list \<Rightarrow> Vector3D list" where
  "normalized cs = List.map_filter normalizeArg cs"

section \<open>Histories of a controller\<close>

text \<open>
  What the rest of the program can do with a controller: the window delivers an event,
  the game loop calls \<^verbatim>\<open>update\<close>, a caller uses a public method or assigns one of the
  two public fields.
\<close>

datatype stimulus =
    KeyEvent string string
  | Frame real
  | CallMoveForward
  | CallMoveBackward
  | CallMoveLeft
  | CallMoveRight
  | CallJump
  | CallShoot
  | CallDestroy
  | SetMoveSpeed real
  | SetAirControlModifier real

fun isKeyEvent :: "stimulus \<Rightarrow> bool" where
  "isKeyEvent (KeyEvent ty code) = True"
| "isKeyEvent _ = False"

text \<open>The stimuli that assign one of the two public fields.\<close>

fun isAssignment :: "stimulus \<Rightarrow> bool" where
  "isAssignment (SetMoveSpeed v) = True"
| "isAssignment (SetAirControlModifier v) = True"
| "isAssignment _ = False"

fun step ::
  "(Vector3D \<Rightarrow> Vector3D) \<Rightarrow> ('p, 'h) Player \<Rightarrow> stimulus \<Rightarrow> 'p world \<Rightarrow> 'p world" where
  "step N P (KeyEvent ty code) w = dispatchEvent ty code w"
| "step N P (Frame dt) w = update N P dt w"
| "step N P CallMoveForward w = w\<lparr>controller := moveForward (controller w)\<rparr>"
| "step N P CallMoveBackward w = w\<lparr>controller := moveBackward (controller w)\<rparr>"
| "step N P CallMoveLeft w = w\<lparr>controller := moveLeft (controller w)\<rparr>"
| "step N P CallMoveRight w = w\<lparr>controller := moveRight (controller w)\<rparr>"
| "step N P CallJump w = snd (ctrl_jump P w)"
| "step N P CallShoot w = snd (ctrl_shoot P w)"
| "step N P CallDestroy w = destroy w"
| "step N P (SetMoveSpeed v) w = w\<lparr>controller := (controller w)\<lparr>moveSpeed := v\<rparr>\<rparr>"
| "step N P (SetAirControlModifier v) w =
     w\<lparr>controller := (controller w)\<lparr>airControlModifier := v\<rparr>\<rparr>"

definition run ::
  "(Vector3D \<Rightarrow> Vector3D) \<Rightarrow> ('p, 'h) Player \<Rightarrow> stimulus list \<Rightarrow> 'p world \<Rightarrow> 'p world" where
  "run N P ss w = fold (step N P) ss w"

section \<open>Double arithmetic, vector length and normalization\<close>

text \<open>
  The numbers of the program are JavaScript numbers, IEEE 754 doubles: every result of
  an arithmetic operation is the exact result rounded to the nearest number with a
  significand of 53 bits, ties to the even significand. \<open>roundDouble\<close> is that
  rounding on the reals, for the sign and the magnitude apart; \<open>ulpExponent r\<close> is the
  exponent of the last of the 53 bits of \<open>r\<close>. Overflow and subnormal numbers are left
  out: the values computed below stay between 1/4 and 2.
\<close>

definition roundEven :: "real \<Rightarrow> int" where
  "roundEven t =
     (let n = \<lfloor>t\<rfloor> in
      if t - of_int n < 1/2 then n
      else if 1/2 < t - of_int n then n + 1
      else if even n then n else n + 1)"

definition ulpExponent :: "real \<Rightarrow> int" where
  "ulpExponent r = \<lfloor>log 2 \<bar>r\<bar>\<rfloor> - 52"

definition roundDouble :: "real \<Rightarrow> real" where
  "roundDouble r =
     (if r = 0 then 0
      else sgn r * of_int (roundEven (\<bar>r\<bar> / 2 powr of_int (ulpExponent r))) *
           2 powr of_int (ulpExponent r))"

text \<open>The operators \<^verbatim>\<open>+\<close>, \<^verbatim>\<open>*\<close>, \<^verbatim>\<open>/\<close> and \<^verbatim>\<open>Math.sqrt\<close> on doubles.\<close>

definition addD :: "real \<Rightarrow> real \<Rightarrow> real" where
  "addD a b = roundDouble (a + b)"

definition mulD :: "real \<Rightarrow> real \<Rightarrow> real" where
  "mulD a b = roundDouble (a * b)"

definition divD :: "real \<Rightarrow> real \<Rightarrow> real" where
  "divD a b = roundDouble (a / b)"

definition sqrtD :: "real \<Rightarrow> real" where
  "sqrtD a = roundDouble (sqrt a)"

text \<open>
  Modelled from the spec: the \<^verbatim>\<open>Vector3D\<close> class (its length and its
  \<^verbatim>\<open>normalize\<close> method, here \<open>normalizeVector\<close>) is imported from the engine core
  and is not among the sources at hand. The specification (section 3, MovementIntent;
  section 4.2, step 2) says that a non-zero vector is normalized to unit length: every
  component is divided by the length of the vector, the square root of the sum of the
  squares of the components. \<open>vectorLength\<close> and \<open>normalizeVector\<close> compute this in
  double arithmetic, as the program does. \<open>magnitude\<close> is the exact Euclidean length
  of a vector, with no rounding. Dividing the zero vector by its length gives
  \<^verbatim>\<open>NaN\<close> in JavaScript, which no real stands for; the controller never normalizes
  the zero vector.
\<close>

definition magnitude :: "Vector3D \<Rightarrow> real" where
  "magnitude v = sqrt (vec_x v * vec_x v + vec_y v * vec_y v + vec_z v * vec_z v)"

definition vectorLength :: "Vector3D \<Rightarrow> real" where
  "vectorLength v =
     sqrtD (addD (addD (mulD (vec_x v) (vec_x v)) (mulD (vec_y v) (vec_y v)))
                 (mulD (vec_z v) (vec_z v)))"

definition normalizeVector :: "Vector3D \<Rightarrow> Vector3D" where
  "normalizeVector v =
     (let len = vectorLength v
      in \<lparr>vec_x = divD (vec_x v) len, vec_y = divD (vec_y v) len, vec_z = divD (vec_z v) len\<rparr>)"

text \<open>
  Two doubles: the one JavaScript prints as \<^verbatim>\<open>1.4142135623730951\<close>, which is
  \<^verbatim>\<open>Math.sqrt(2)\<close>, and the one it prints as \<^verbatim>\<open>0.7071067811865475\<close>, which is
  \<^verbatim>\<open>1 / Math.sqrt(2)\<close>.
\<close>

definition sqrt2D :: real where
  "sqrt2D = 6369051672525773 / 2 ^ 52"

definition invSqrt2D :: real where
  "invSqrt2D = 6369051672525772 / 2 ^ 53"

section \<open>A pawn to run the controller on\<close>

text \<open>
  A small pawn for the worked examples: it stands on the ground or not, carries some
  ammunition and remembers how far it was told to move. It may jump from the ground
  and shoot while it has ammunition; a shot reports the ammunition left.
\<close>

record examplePawn =
  grounded :: bool
  ammo :: nat
  travelled :: real

definition examplePlayer :: "(examplePawn, nat) Player" where
  "examplePlayer =
     \<lparr>isOnGround = grounded,
      canJump = grounded,
      canShoot = (\<lambda>p. 0 < ammo p),
      pawn_jump = (\<lambda>p. p\<lparr>grounded := False\<rparr>),
      pawn_shoot = (\<lambda>p. (Some (ammo p - 1), p\<lparr>ammo := ammo p - 1\<rparr>)),
      move = (\<lambda>d speed dt p. p\<lparr>travelled := travelled p + magnitude d * speed * dt\<rparr>)\<rparr>"

definition pawnOnGround :: examplePawn where
  "pawnOnGround = \<lparr>grounded = True, ammo = 2, travelled = 0\<rparr>"

definition pawnInAir :: examplePawn where
  "pawnInAir = \<lparr>grounded = False, ammo = 0, travelled = 0\<rparr>"

text \<open>
  The world of the examples: a fresh controller for the example pawn, after key-down
  events for the given key codes.
\<close>

definition pressed :: "string list \<Rightarrow> examplePawn \<Rightarrow> examplePawn world" where
  "pressed codes p =
     run normalizeVector examplePlayer (map (KeyEvent ''keydown'') codes) (newPlayerController p)"

section \<open>Properties of the key handlers\<close>

lemma boundAction_cases:
  "boundAction code =
     (if code = ''KeyW'' \<or> code = ''ArrowUp'' then Some AForward
      else if code = ''KeyS'' \<or> code = ''ArrowDown'' then Some ABackward
      else if code = ''KeyA'' \<or> code = ''ArrowLeft'' then Some ALeft
      else if code = ''KeyD'' \<or> code = ''ArrowRight'' then Some ARight
      else if code = ''Space'' then Some AJump
      else if code = ''Mouse0'' \<or> code = ''Enter'' then Some AShoot
      else None)"
  by (simp add: boundAction_def keyBindings_def)

lemma onKeyDown_applyKey: "onKeyDown code c = applyKey True code c"
  by (simp add: onKeyDown_def applyKey_def boundAction_cases)

lemma onKeyUp_applyKey: "onKeyUp code c = applyKey False code c"
  by (simp add: onKeyUp_def applyKey_def boundAction_cases)

lemma flag_setFlag: "flag a (setFlag a' b i) = (if a = a' then b else flag a i)"
  by (cases a; cases a') simp_all

lemma setFlag_setFlag: "setFlag a b (setFlag a b' i) = setFlag a b i"
  by (cases a) simp_all

section \<open>Calls made by the controller's operations\<close>

lemma issued_append: "calls w' = calls w @ cs \<Longrightarrow> issued w w' = cs"
  by (simp add: issued_def)

lemma moves_simps:
  "moves [] = []"
  "moves (Player_move d sp t # cs) = (d, sp, t) # moves cs"
  "moves (Vector3D_normalize v # cs) = moves cs"
  "moves (Player_isOnGround # cs) = moves cs"
  "moves (Player_canJump # cs) = moves cs"
  "moves (Player_jump # cs) = moves cs"
  "moves (Player_canShoot # cs) = moves cs"
  "moves (Player_shoot # cs) = moves cs"
  by (simp_all add: moves_def List.map_filter_simps)

lemma moves_append: "moves (cs @ ds) = moves cs @ moves ds"
  by (simp add: moves_def List.map_filter_def)

lemma normalized_simps:
  "normalized [] = []"
  "normalized (Vector3D_normalize v # cs) = v # normalized cs"
  "normalized (Player_move d sp t # cs) = normalized cs"
  "normalized (Player_isOnGround # cs) = normalized cs"
  "normalized (Player_canJump # cs) = normalized cs"
  "normalized (Player_jump # cs) = normalized cs"
  "normalized (Player_canShoot # cs) = normalized cs"
  "normalized (Player_shoot # cs) = normalized cs"
  by (simp_all add: normalized_def List.map_filter_simps)

lemma normalized_append: "normalized (cs @ ds) = normalized cs @ normalized ds"
  by (simp add: normalized_def List.map_filter_def)

lemma handleMovement_calls:
  "calls (handleMovement N P dt w) =
     calls w @
     (if vec_x (moveDirection (inputState (controller w))) = 0 \<and>
         vec_z (moveDirection (inputState (controller w))) = 0
      then []
      else [Vector3D_normalize (moveDirection (inputState (controller w))),
            Player_isOnGround,
            Player_move (N (moveDirection (inputState (controller w))))
              (if isOnGround P (pawn w) then moveSpeed (controller w)
               else moveSpeed (controller w) * airControlModifier (controller w)) dt])"
  by (simp add: handleMovement_def Let_def)

lemma handleMovement_controller: "controller (handleMovement N P dt w) = controller w"
  by (simp add: handleMovement_def Let_def)

lemma handleMovement_listeners: "listeners (handleMovement N P dt w) = listeners w"
  by (simp add: handleMovement_def Let_def)

lemma ctrl_jump_calls:
  "calls (snd (ctrl_jump P w)) =
     calls w @ Player_canJump # (if canJump P (pawn w) then [Player_jump] else [])"
  by (simp add: ctrl_jump_def Let_def)

lemma ctrl_jump_controller: "controller (snd (ctrl_jump P w)) = controller w"
  by (simp add: ctrl_jump_def Let_def)

lemma ctrl_jump_listeners: "listeners (snd (ctrl_jump P w)) = listeners w"
  by (simp add: ctrl_jump_def Let_def)

lemma ctrl_shoot_calls:
  "calls (snd (ctrl_shoot P w)) =
     calls w @ Player_canShoot # (if canShoot P (pawn w) then [Player_shoot] else [])"
  by (simp add: ctrl_shoot_def Let_def)

lemma ctrl_shoot_controller: "controller (snd (ctrl_shoot P w)) = controller w"
  by (simp add: ctrl_shoot_def Let_def)

lemma ctrl_shoot_listeners: "listeners (snd (ctrl_shoot P w)) = listeners w"
  by (simp add: ctrl_shoot_def Let_def)

lemma handleActions_calls:
  "calls (handleActions P w) =
     calls w @
     (if jump (inputState (controller w))
      then Player_canJump # (if canJump P (pawn w) then [Player_jump] else [])
      else []) @
     (if shoot (inputState (controller w))
      then Player_canShoot #
           (if canShoot P (pawn (if jump (inputState (controller w)) then snd (ctrl_jump P w) else w))
            then [Player_shoot] else [])
      else [])"
  by (simp add: handleActions_def Let_def ctrl_jump_calls ctrl_shoot_calls ctrl_jump_controller)

lemma handleActions_controller: "controller (handleActions P w) = controller w"
  by (simp add: handleActions_def Let_def ctrl_jump_controller ctrl_shoot_controller)

lemma handleActions_listeners: "listeners (handleActions P w) = listeners w"
  by (simp add: handleActions_def Let_def ctrl_jump_listeners ctrl_shoot_listeners)

lemma update_controller: "controller (update N P dt w) = controller w"
  by (simp add: update_def handleActions_controller handleMovement_controller)

lemma update_listeners: "listeners (update N P dt w) = listeners w"
  by (simp add: update_def handleActions_listeners handleMovement_listeners)

lemma handleActions_issued_moves: "moves (issued w (handleActions P w)) = []"
  by (simp add: issued_append [OF handleActions_calls] moves_append moves_simps)

lemma handleActions_issued_normalized: "normalized (issued w (handleActions P w)) = []"
  by (simp add: issued_append [OF handleActions_calls] normalized_append normalized_simps)

lemma calls_extend_handleMovement:
  "\<exists>cs. calls (handleMovement N P dt w) = calls w @ cs"
  using handleMovement_calls by blast

lemma calls_extend_handleActions: "\<exists>cs. calls (handleActions P w) = calls w @ cs"
  using handleActions_calls by blast

lemma issued_update:
  "issued w (update N P dt w) =
     issued w (handleMovement N P dt w) @
     issued (handleMovement N P dt w) (handleActions P (handleMovement N P dt w))"
proof -
  obtain cs where cs: "calls (handleMovement N P dt w) = calls w @ cs"
    using calls_extend_handleMovement by blast
  obtain ds where ds:
    "calls (handleActions P (handleMovement N P dt w)) = calls (handleMovement N P dt w) @ ds"
    using calls_extend_handleActions by blast
  show ?thesis
    by (simp add: update_def issued_def cs ds)
qed

lemma update_calls_extend: "calls (update N P dt w) = calls w @ issued w (update N P dt w)"
proof -
  obtain cs where cs: "calls (handleMovement N P dt w) = calls w @ cs"
    using calls_extend_handleMovement by blast
  obtain ds where ds:
    "calls (handleActions P (handleMovement N P dt w)) = calls (handleMovement N P dt w) @ ds"
    using calls_extend_handleActions by blast
  show ?thesis
    by (simp add: update_def issued_def cs ds)
qed

lemma update_moves:
  "moves (issued w (update N P dt w)) =
     (if vec_x (moveDirection (inputState (controller w))) = 0 \<and>
         vec_z (moveDirection (inputState (controller w))) = 0
      then []
      else [(N (moveDirection (inputState (controller w))),
             (if isOnGround P (pawn w) then moveSpeed (controller w)
              else moveSpeed (controller w) * airControlModifier (controller w)),
             dt)])"
  by (simp add: issued_update moves_append handleActions_issued_moves
      issued_append [OF handleMovement_calls] moves_simps)

lemma update_normalized:
  "normalized (issued w (update N P dt w)) =
     (if vec_x (moveDirection (inputState (controller w))) = 0 \<and>
         vec_z (moveDirection (inputState (controller w))) = 0
      then []
      else [moveDirection (inputState (controller w))])"
  by (simp add: issued_update normalized_append handleActions_issued_normalized
      issued_append [OF handleMovement_calls] normalized_simps)

section \<open>The worlds of the examples\<close>

lemma new_controller:
  "controller (newPlayerController p) =
     \<lparr>moveSpeed = 5, airControlModifier = 1/2,
      inputState = \<lparr>forward = False, backward = False, left = False, right = False,
                    jump = False, shoot = False\<rparr>\<rparr>"
  by (simp add: newPlayerController_def startListening_def addEventListener_def)

lemma new_listeners:
  "listeners (newPlayerController p) =
     (\<lambda>ty. [])(''keydown'' := [OnKeyDownHandler], ''keyup'' := [OnKeyUpHandler])"
  by (simp add: newPlayerController_def startListening_def addEventListener_def)

lemma new_pawn: "pawn (newPlayerController p) = p"
  by (simp add: newPlayerController_def startListening_def addEventListener_def)

lemma new_calls: "calls (newPlayerController p) = []"
  by (simp add: newPlayerController_def startListening_def addEventListener_def)

lemma pressed_controller:
  "controller (pressed codes p) =
     fold onKeyDown codes
       \<lparr>moveSpeed = 5, airControlModifier = 1/2,
        inputState = \<lparr>forward = False, backward = False, left = False, right = False,
                      jump = False, shoot = False\<rparr>\<rparr>"
proof -
  have "\<And>w::examplePawn world. listeners w ''keydown'' = [OnKeyDownHandler] \<Longrightarrow>
      controller (fold (step normalizeVector examplePlayer) (map (KeyEvent ''keydown'') codes) w) =
      fold onKeyDown codes (controller w)"
    by (induction codes) (simp_all add: dispatchEvent_def)
  then show ?thesis
    by (simp add: pressed_def run_def newPlayerController_def startListening_def
        addEventListener_def)
qed

lemma pressed_pawn: "pawn (pressed codes p) = p"
proof -
  have "\<And>w::examplePawn world.
      pawn (fold (step normalizeVector examplePlayer) (map (KeyEvent ''keydown'') codes) w) = pawn w"
    by (induction codes) (simp_all add: dispatchEvent_def)
  then show ?thesis
    by (simp add: pressed_def run_def newPlayerController_def startListening_def
        addEventListener_def)
qed

section \<open>The direction of movement\<close>

lemma moveDirection_eq:
  "moveDirection i =
     \<lparr>vec_x = (if right i then 1 else 0) + (if left i then - 1 else 0),
      vec_y = 0,
      vec_z = (if forward i then 1 else 0) + (if backward i then - 1 else 0)\<rparr>"
  by (simp add: moveDirection_def Let_def)

text \<open>
  Claim C1. For every input state, the direction vector that \<^verbatim>\<open>handleMovement\<close> builds
  before normalization is the sum of the per-axis contributions: \<open>+1\<close> on the forward
  axis (\<open>z\<close>) if forward is held and \<open>-1\<close> if backward is held, \<open>+1\<close> on the lateral
  axis (\<open>x\<close>) if right is held and \<open>-1\<close> if left is held. Opposite keys held together
  cancel on their axis. It is that vector that is handed to \<^verbatim>\<open>normalize\<close>, when it is
  not zero; when it is zero, \<^verbatim>\<open>update\<close> issues no move command and
  \<^verbatim>\<open>handleMovement\<close> changes nothing.
\<close>

theorem direction_is_sum_of_axis_contributions:
  "moveDirection (inputState (controller w)) =
     \<lparr>vec_x = (if right (inputState (controller w)) then 1 else 0) +
              (if left (inputState (controller w)) then - 1 else 0),
      vec_y = 0,
      vec_z = (if forward (inputState (controller w)) then 1 else 0) +
              (if backward (inputState (controller w)) then - 1 else 0)\<rparr>
   \<and> (forward (inputState (controller w)) \<and> backward (inputState (controller w))
        \<longrightarrow> vec_z (moveDirection (inputState (controller w))) = 0)
   \<and> (left (inputState (controller w)) \<and> right (inputState (controller w))
        \<longrightarrow> vec_x (moveDirection (inputState (controller w))) = 0)
   \<and> normalized (issued w (update N P dt w)) =
        (if vec_x (moveDirection (inputState (controller w))) = 0 \<and>
            vec_z (moveDirection (inputState (controller w))) = 0
         then [] else [moveDirection (inputState (controller w))])
   \<and> (vec_x (moveDirection (inputState (controller w))) = 0 \<and>
       vec_z (moveDirection (inputState (controller w))) = 0
        \<longrightarrow> moves (issued w (update N P dt w)) = [] \<and> handleMovement N P dt w = w)"
proof (intro conjI impI)
  show "moveDirection (inputState (controller w)) =
     \<lparr>vec_x = (if right (inputState (controller w)) then 1 else 0) +
              (if left (inputState (controller w)) then - 1 else 0),
      vec_y = 0,
      vec_z = (if forward (inputState (controller w)) then 1 else 0) +
              (if backward (inputState (controller w)) then - 1 else 0)\<rparr>"
    by (rule moveDirection_eq)
next
  assume "forward (inputState (controller w)) \<and> backward (inputState (controller w))"
  then show "vec_z (moveDirection (inputState (controller w))) = 0"
    by (simp add: moveDirection_eq)
next
  assume "left (inputState (controller w)) \<and> right (inputState (controller w))"
  then show "vec_x (moveDirection (inputState (controller w))) = 0"
    by (simp add: moveDirection_eq)
next
  show "normalized (issued w (update N P dt w)) =
        (if vec_x (moveDirection (inputState (controller w))) = 0 \<and>
            vec_z (moveDirection (inputState (controller w))) = 0
         then [] else [moveDirection (inputState (controller w))])"
    by (rule update_normalized)
next
  assume z: "vec_x (moveDirection (inputState (controller w))) = 0 \<and>
       vec_z (moveDirection (inputState (controller w))) = 0"
  then show "moves (issued w (update N P dt w)) = []"
    by (simp add: update_moves)
  from z show "handleMovement N P dt w = w"
    by (simp add: handleMovement_def Let_def)
qed

text \<open>
  Forward, backward and right held together give the direction \<open>(1, 0, 0)\<close>; forward
  and backward alone give no move command.
\<close>

theorem direction_is_sum_of_axis_contributions_witness:
  "moveDirection (inputState (controller (pressed [''KeyW'', ''KeyS'', ''KeyD''] pawnOnGround))) =
     \<lparr>vec_x = 1, vec_y = 0, vec_z = 0\<rparr>
   \<and> vec_z (moveDirection (inputState (controller (pressed [''KeyW'', ''KeyS''] pawnOnGround)))) = 0
   \<and> vec_x (moveDirection (inputState (controller (pressed [''KeyA'', ''KeyD''] pawnOnGround)))) = 0
   \<and> normalized (issued (pressed [''KeyW'', ''KeyS'', ''KeyD''] pawnOnGround)
        (update normalizeVector examplePlayer (1/60) (pressed [''KeyW'', ''KeyS'', ''KeyD''] pawnOnGround))) =
       [\<lparr>vec_x = 1, vec_y = 0, vec_z = 0\<rparr>]
   \<and> moves (issued (pressed [''KeyW'', ''KeyS''] pawnOnGround)
        (update normalizeVector examplePlayer (1/60) (pressed [''KeyW'', ''KeyS''] pawnOnGround))) = []"
  using direction_is_sum_of_axis_contributions
          [of "pressed [''KeyW'', ''KeyS'', ''KeyD''] pawnOnGround" normalizeVector examplePlayer "1/60"]
        direction_is_sum_of_axis_contributions
          [of "pressed [''KeyW'', ''KeyS''] pawnOnGround" normalizeVector examplePlayer "1/60"]
        direction_is_sum_of_axis_contributions
          [of "pressed [''KeyA'', ''KeyD''] pawnOnGround" normalizeVector examplePlayer "1/60"]
  by (simp add: pressed_controller onKeyDown_def)

section \<open>The calls of one frame\<close>

lemma update_issued:
  "issued w (update N P dt w) =
     (if vec_x (moveDirection (inputState (controller w))) = 0 \<and>
         vec_z (moveDirection (inputState (controller w))) = 0
      then []
      else [Vector3D_normalize (moveDirection (inputState (controller w))),
            Player_isOnGround,
            Player_move (N (moveDirection (inputState (controller w))))
              (if isOnGround P (pawn w) then moveSpeed (controller w)
               else moveSpeed (controller w) * airControlModifier (controller w)) dt]) @
     (if jump (inputState (controller w))
      then Player_canJump #
           (if canJump P (pawn (handleMovement N P dt w)) then [Player_jump] else [])
      else []) @
     (if shoot (inputState (controller w))
      then Player_canShoot #
           (if canShoot P
                 (pawn (if jump (inputState (controller w))
                        then snd (ctrl_jump P (handleMovement N P dt w))
                        else handleMovement N P dt w))
            then [Player_shoot] else [])
      else [])"
  by (simp add: issued_update issued_append [OF handleMovement_calls]
      issued_append [OF handleActions_calls] handleMovement_controller)

text \<open>
  Claim C2. One call of \<^verbatim>\<open>update\<close> only appends calls to those made before, and
  among the calls of the frame there is at most one move command; the controller's
  \<^verbatim>\<open>jump\<close> is attempted (the pawn is asked \<^verbatim>\<open>canJump\<close>) exactly once when the jump
  flag is held and not at all otherwise, and the pawn is commanded to jump exactly when
  moreover it answers that it can; likewise for \<^verbatim>\<open>shoot\<close>. The controller's fields,
  the input state among them, and the window's listeners are the same after the frame
  as before, so the next frame attempts the same actions again (level-triggered).
\<close>

theorem update_issues_at_most_one_of_each:
  "calls (update N P dt w) = calls w @ issued w (update N P dt w)
   \<and> length (moves (issued w (update N P dt w))) \<le> 1
   \<and> count_list (issued w (update N P dt w)) Player_canJump =
       (if jump (inputState (controller w)) then 1 else 0)
   \<and> count_list (issued w (update N P dt w)) Player_jump =
       (if jump (inputState (controller w)) \<and> canJump P (pawn (handleMovement N P dt w))
        then 1 else 0)
   \<and> count_list (issued w (update N P dt w)) Player_canShoot =
       (if shoot (inputState (controller w)) then 1 else 0)
   \<and> count_list (issued w (update N P dt w)) Player_shoot =
       (if shoot (inputState (controller w)) \<and>
           canShoot P
             (pawn (if jump (inputState (controller w))
                    then snd (ctrl_jump P (handleMovement N P dt w))
                    else handleMovement N P dt w))
        then 1 else 0)
   \<and> controller (update N P dt w) = controller w
   \<and> listeners (update N P dt w) = listeners w
   \<and> count_list (issued (update N P dt w) (update N P dt' (update N P dt w))) Player_canJump =
       (if jump (inputState (controller w)) then 1 else 0)
   \<and> count_list (issued (update N P dt w) (update N P dt' (update N P dt w))) Player_canShoot =
       (if shoot (inputState (controller w)) then 1 else 0)"
proof (intro conjI)
  show "calls (update N P dt w) = calls w @ issued w (update N P dt w)"
    by (rule update_calls_extend)
  show "length (moves (issued w (update N P dt w))) \<le> 1"
    by (simp add: update_moves)
  show "count_list (issued w (update N P dt w)) Player_canJump =
       (if jump (inputState (controller w)) then 1 else 0)"
    by (simp add: update_issued)
  show "count_list (issued w (update N P dt w)) Player_jump =
       (if jump (inputState (controller w)) \<and> canJump P (pawn (handleMovement N P dt w))
        then 1 else 0)"
    by (simp add: update_issued)
  show "count_list (issued w (update N P dt w)) Player_canShoot =
       (if shoot (inputState (controller w)) then 1 else 0)"
    by (simp add: update_issued)
  show "count_list (issued w (update N P dt w)) Player_shoot =
       (if shoot (inputState (controller w)) \<and>
           canShoot P
             (pawn (if jump (inputState (controller w))
                    then snd (ctrl_jump P (handleMovement N P dt w))
                    else handleMovement N P dt w))
        then 1 else 0)"
    by (simp add: update_issued)
  show "controller (update N P dt w) = controller w"
    by (rule update_controller)
  show "listeners (update N P dt w) = listeners w"
    by (rule update_listeners)
  show "count_list (issued (update N P dt w) (update N P dt' (update N P dt w))) Player_canJump =
       (if jump (inputState (controller w)) then 1 else 0)"
    by (simp add: update_issued update_controller)
  show "count_list (issued (update N P dt w) (update N P dt' (update N P dt w))) Player_canShoot =
       (if shoot (inputState (controller w)) then 1 else 0)"
    by (simp add: update_issued update_controller)
qed

text \<open>
  On the ground, with forward, jump and shoot held, one frame commands one move, one
  jump and one shot. In the air, with jump held, the frame attempts the jump without
  commanding it, attempts no shot, and leaves the jump flag held.
\<close>

theorem update_issues_at_most_one_of_each_witness:
  "length (moves (issued (pressed [''KeyW'', ''Space'', ''Enter''] pawnOnGround)
     (update normalizeVector examplePlayer (1/60)
        (pressed [''KeyW'', ''Space'', ''Enter''] pawnOnGround)))) = 1
   \<and> count_list (issued (pressed [''KeyW'', ''Space'', ''Enter''] pawnOnGround)
     (update normalizeVector examplePlayer (1/60)
        (pressed [''KeyW'', ''Space'', ''Enter''] pawnOnGround))) Player_canJump = 1
   \<and> count_list (issued (pressed [''KeyW'', ''Space'', ''Enter''] pawnOnGround)
     (update normalizeVector examplePlayer (1/60)
        (pressed [''KeyW'', ''Space'', ''Enter''] pawnOnGround))) Player_jump = 1
   \<and> count_list (issued (pressed [''KeyW'', ''Space'', ''Enter''] pawnOnGround)
     (update normalizeVector examplePlayer (1/60)
        (pressed [''KeyW'', ''Space'', ''Enter''] pawnOnGround))) Player_shoot = 1
   \<and> count_list (issued (pressed [''Space''] pawnInAir)
     (update normalizeVector examplePlayer (1/60) (pressed [''Space''] pawnInAir))) Player_canJump = 1
   \<and> count_list (issued (pressed [''Space''] pawnInAir)
     (update normalizeVector examplePlayer (1/60) (pressed [''Space''] pawnInAir))) Player_jump = 0
   \<and> count_list (issued (pressed [''Space''] pawnInAir)
     (update normalizeVector examplePlayer (1/60) (pressed [''Space''] pawnInAir))) Player_canShoot = 0
   \<and> inputState (controller
        (update normalizeVector examplePlayer (1/60) (pressed [''Space''] pawnInAir))) =
      \<lparr>forward = False, backward = False, left = False, right = False, jump = True, shoot = False\<rparr>"
  using update_issues_at_most_one_of_each
          [of normalizeVector examplePlayer "1/60"
              "pressed [''KeyW'', ''Space'', ''Enter''] pawnOnGround" "1/60"]
        update_issues_at_most_one_of_each
          [of normalizeVector examplePlayer "1/60" "pressed [''Space''] pawnInAir" "1/60"]
  by (simp add: pressed_controller pressed_pawn onKeyDown_def moveDirection_eq update_moves
      handleMovement_def ctrl_jump_def Let_def examplePlayer_def pawnOnGround_def pawnInAir_def)

section \<open>Jump and shoot\<close>

text \<open>
  Claim C3. \<^verbatim>\<open>jump()\<close> returns what \<^verbatim>\<open>canJump()\<close> of the pawn answers; it commands
  the pawn to jump exactly once when that is true and not at all when it is false.
  \<^verbatim>\<open>shoot()\<close> returns the result of the pawn's shot when \<^verbatim>\<open>canShoot()\<close> is true and
  \<^verbatim>\<open>undefined\<close> (\<open>None\<close>) without any shot otherwise. Neither reads or changes a field
  of the controller: there is no cooldown or ammunition logic on its side.
\<close>

theorem jump_and_shoot_delegate:
  "fst (ctrl_jump P w) = canJump P (pawn w)
   \<and> issued w (snd (ctrl_jump P w)) =
       (if canJump P (pawn w) then [Player_canJump, Player_jump] else [Player_canJump])
   \<and> pawn (snd (ctrl_jump P w)) = (if canJump P (pawn w) then pawn_jump P (pawn w) else pawn w)
   \<and> controller (snd (ctrl_jump P w)) = controller w
   \<and> fst (ctrl_shoot P w) = (if canShoot P (pawn w) then fst (pawn_shoot P (pawn w)) else None)
   \<and> issued w (snd (ctrl_shoot P w)) =
       (if canShoot P (pawn w) then [Player_canShoot, Player_shoot] else [Player_canShoot])
   \<and> pawn (snd (ctrl_shoot P w)) =
       (if canShoot P (pawn w) then snd (pawn_shoot P (pawn w)) else pawn w)
   \<and> controller (snd (ctrl_shoot P w)) = controller w"
  by (simp add: ctrl_jump_def ctrl_shoot_def issued_def Let_def)

text \<open>
  The example pawn can jump and shoot on the ground with two rounds, and can do neither
  in the air without ammunition.
\<close>

theorem jump_and_shoot_delegate_witness:
  "fst (ctrl_jump examplePlayer (newPlayerController pawnOnGround)) = True
   \<and> issued (newPlayerController pawnOnGround)
        (snd (ctrl_jump examplePlayer (newPlayerController pawnOnGround))) =
       [Player_canJump, Player_jump]
   \<and> fst (ctrl_jump examplePlayer (newPlayerController pawnInAir)) = False
   \<and> issued (newPlayerController pawnInAir)
        (snd (ctrl_jump examplePlayer (newPlayerController pawnInAir))) = [Player_canJump]
   \<and> fst (ctrl_shoot examplePlayer (newPlayerController pawnOnGround)) = Some 1
   \<and> issued (newPlayerController pawnOnGround)
        (snd (ctrl_shoot examplePlayer (newPlayerController pawnOnGround))) =
       [Player_canShoot, Player_shoot]
   \<and> fst (ctrl_shoot examplePlayer (newPlayerController pawnInAir)) = None
   \<and> issued (newPlayerController pawnInAir)
        (snd (ctrl_shoot examplePlayer (newPlayerController pawnInAir))) = [Player_canShoot]"
  using jump_and_shoot_delegate [of examplePlayer "newPlayerController pawnOnGround"]
        jump_and_shoot_delegate [of examplePlayer "newPlayerController pawnInAir"]
  by (simp add: new_pawn examplePlayer_def pawnOnGround_def pawnInAir_def)

section \<open>Rounding to doubles\<close>

lemma roundEven_near:
  assumes "\<bar>t - of_int k\<bar> < 1/2"
  shows "roundEven t = k"
proof (cases "of_int k \<le> t")
  case True
  with assms have "\<lfloor>t\<rfloor> = k"
    by (intro floor_unique) linarith+
  with assms True show ?thesis
    by (simp add: roundEven_def Let_def)
next
  case False
  with assms have "real_of_int k - 1 \<le> t" "t < real_of_int k"
    by linarith+
  then have f: "\<lfloor>t\<rfloor> = k - 1"
    by (intro floor_unique) simp_all
  from assms False have "1/2 < t - of_int (k - 1)"
    by simp
  with f show ?thesis
    by (simp add: roundEven_def Let_def)
qed

lemma roundEven_int: "roundEven (of_int k) = k"
  by (rule roundEven_near) simp

lemma ulpExponent_eq:
  assumes "0 < r" "2 ^ 52 \<le> r / 2 powr of_int j" "r / 2 powr of_int j < 2 ^ 53"
  shows "ulpExponent r = j"
proof -
  have p: "0 < (2::real) powr of_int j"
    by simp
  have "(2::real) powr of_int (52 + j) = 2 ^ 52 * 2 powr of_int j"
    by (simp add: powr_add)
  moreover have "(2::real) powr (of_int (52 + j) + 1) = 2 ^ 53 * 2 powr of_int j"
    by (simp add: powr_add)
  moreover from assms(2) p have "2 ^ 52 * 2 powr of_int j \<le> r"
    by (simp add: pos_le_divide_eq)
  moreover from assms(3) p have "r < 2 ^ 53 * 2 powr of_int j"
    by (simp add: pos_divide_less_eq)
  ultimately have "\<lfloor>log 2 r\<rfloor> = 52 + j"
    using assms(1) by (subst floor_log_eq_powr_iff) simp_all
  with assms(1) show ?thesis
    by (simp add: ulpExponent_def)
qed

lemma roundDouble_near:
  assumes "0 < r" "2 ^ 52 < k" "k < 2 ^ 53" "\<bar>r / 2 powr of_int j - of_int k\<bar> < 1/2"
  shows "roundDouble r = of_int k * 2 powr of_int j"
proof -
  from assms(2) have "(2::int) ^ 52 + 1 \<le> k"
    by linarith
  then have "real_of_int (2 ^ 52 + 1) \<le> real_of_int k"
    by (simp only: of_int_le_iff)
  then have "(2::real) ^ 52 + 1 \<le> of_int k"
    by simp
  with assms(4) have lo: "2 ^ 52 \<le> r / 2 powr of_int j"
    by linarith
  from assms(3) have "k + 1 \<le> (2::int) ^ 53"
    by linarith
  then have "real_of_int (k + 1) \<le> real_of_int (2 ^ 53)"
    by (simp only: of_int_le_iff)
  then have "of_int k + 1 \<le> (2::real) ^ 53"
    by simp
  with assms(4) have hi: "r / 2 powr of_int j < 2 ^ 53"
    by linarith
  have e: "ulpExponent r = j"
    by (rule ulpExponent_eq [OF assms(1) lo hi])
  have "roundEven (r / 2 powr of_int j) = k"
    by (rule roundEven_near [OF assms(4)])
  with assms(1) e show ?thesis
    by (simp add: roundDouble_def)
qed

lemma roundDouble_exact:
  assumes "2 ^ 52 \<le> k" "k < 2 ^ 53"
  shows "roundDouble (of_int k * 2 powr of_int j) = of_int k * 2 powr of_int j"
proof -
  let ?r = "of_int k * 2 powr of_int j :: real"
  have "(0::int) < 2 ^ 52"
    by simp
  with assms(1) have kpos: "0 < k"
    by linarith
  then have rpos: "0 < ?r"
    by simp
  have q: "?r / 2 powr of_int j = of_int k"
    by simp
  from assms(1) have "real_of_int (2 ^ 52) \<le> real_of_int k"
    by (simp only: of_int_le_iff)
  then have lo: "2 ^ 52 \<le> ?r / 2 powr of_int j"
    unfolding q by simp
  from assms(2) have "real_of_int k < real_of_int (2 ^ 53)"
    by (simp only: of_int_less_iff)
  then have hi: "?r / 2 powr of_int j < 2 ^ 53"
    unfolding q by simp
  have e: "ulpExponent ?r = j"
    by (rule ulpExponent_eq [OF rpos lo hi])
  from rpos e show ?thesis
    by (simp add: roundDouble_def roundEven_int)
qed

lemma roundDouble_minus: "roundDouble (- r) = - roundDouble r"
  by (simp add: roundDouble_def ulpExponent_def sgn_minus)

lemma roundDouble_0: "roundDouble 0 = 0"
  by (simp add: roundDouble_def)




lemma roundDouble_near_pow:
  assumes "0 < r" "2 ^ 52 < k" "k < 2 ^ 53" "\<bar>r * 2 ^ n - of_int k\<bar> < 1/2"
  shows "roundDouble r = of_int k / 2 ^ n"
proof -
  have p: "(2::real) powr of_int (- int n) = 1 / 2 ^ n"
    by (simp add: powr_minus powr_realpow inverse_eq_divide)
  from assms(4) have "\<bar>r / 2 powr of_int (- int n) - of_int k\<bar> < 1/2"
    unfolding p by simp
  from roundDouble_near [OF assms(1-3) this] show ?thesis
    unfolding p by simp
qed

lemma roundDouble_exact_pow:
  assumes "2 ^ 52 \<le> k" "k < 2 ^ 53"
  shows "roundDouble (of_int k / 2 ^ n) = of_int k / 2 ^ n"
proof -
  have p: "(2::real) powr of_int (- int n) = 1 / 2 ^ n"
    by (simp add: powr_minus powr_realpow inverse_eq_divide)
  from roundDouble_exact [OF assms, of "- int n"] show ?thesis
    unfolding p by simp
qed



lemma divD_1_sqrt2: "divD 1 sqrt2D = invSqrt2D"
proof -
  have "\<bar>(1 / (6369051672525773 / 2 ^ 52)) * 2 ^ 53 - of_int 6369051672525772\<bar> < (1/2::real)"
    by (simp add: abs_less_iff)
  from roundDouble_near_pow [OF _ _ _ this] show ?thesis
    by (simp add: divD_def sqrt2D_def invSqrt2D_def)
qed

lemma divD_m1_sqrt2: "divD (- 1) sqrt2D = - invSqrt2D"
proof -
  have "divD (- 1) sqrt2D = - divD 1 sqrt2D"
    unfolding divD_def by (simp only: minus_divide_left [symmetric] roundDouble_minus)
  then show ?thesis
    by (simp only: divD_1_sqrt2)
qed

lemma divD_0: "divD 0 b = 0"
  by (simp add: divD_def roundDouble_0)



text \<open>
  An implementation of \<^verbatim>\<open>normalize\<close> that multiplies by the reciprocal of the length
  instead of dividing by the length computes the same doubles on the vectors the
  controller builds, whose components are 0, 1 or -1.
\<close>

lemma roundDouble_invSqrt2D: "roundDouble invSqrt2D = invSqrt2D"
  using roundDouble_exact_pow [of 6369051672525772 53] by (simp add: invSqrt2D_def)

lemma multiply_by_reciprocal:
  assumes "c = 1 \<or> c = - 1 \<or> c = 0"
  shows "mulD c (divD 1 sqrt2D) = divD c sqrt2D"
proof -
  have "mulD (- 1) invSqrt2D = - invSqrt2D"
    using roundDouble_minus [of invSqrt2D] by (simp add: mulD_def roundDouble_invSqrt2D)
  moreover have "mulD 1 invSqrt2D = invSqrt2D"
    by (simp add: mulD_def roundDouble_invSqrt2D)
  moreover have "mulD 0 invSqrt2D = 0"
    by (simp add: mulD_def roundDouble_0)
  ultimately show ?thesis
    using assms divD_1_sqrt2 divD_m1_sqrt2 divD_0 [of sqrt2D] by auto
qed















section \<open>Length of the commanded direction\<close>

lemma magnitude_nonzero:
  assumes "vec_x v \<noteq> 0 \<or> vec_z v \<noteq> 0"
  shows "magnitude v \<noteq> 0"
proof -
  have "0 < vec_x v * vec_x v + vec_z v * vec_z v"
    using assms by (metis add_pos_nonneg add_nonneg_pos zero_le_square not_real_square_gt_zero)
  moreover have "0 \<le> vec_y v * vec_y v"
    by simp
  ultimately have "0 < vec_x v * vec_x v + vec_y v * vec_y v + vec_z v * vec_z v"
    by linarith
  then show ?thesis
    by (simp add: magnitude_def)
qed





section \<open>The commanded speed\<close>

lemma invoke_speeds:
  "moveSpeed (invoke h code c) = moveSpeed c \<and>
   airControlModifier (invoke h code c) = airControlModifier c"
  by (cases h) (simp_all add: onKeyDown_def onKeyUp_def)

lemma fold_invoke_speeds:
  "moveSpeed (fold (\<lambda>h. invoke h code) hs c) = moveSpeed c \<and>
   airControlModifier (fold (\<lambda>h. invoke h code) hs c) = airControlModifier c"
  by (induction hs arbitrary: c) (simp_all add: invoke_speeds)

lemma step_speeds:
  assumes "\<not> isAssignment s"
  shows "moveSpeed (controller (step N P s w)) = moveSpeed (controller w) \<and>
         airControlModifier (controller (step N P s w)) = airControlModifier (controller w)"
proof (cases s)
  case (KeyEvent ty code)
  then show ?thesis
    by (simp add: dispatchEvent_def fold_invoke_speeds)
next
  case (Frame dt)
  then show ?thesis
    by (simp add: update_controller)
next
  case CallJump
  then show ?thesis
    by (simp add: ctrl_jump_controller)
next
  case CallShoot
  then show ?thesis
    by (simp add: ctrl_shoot_controller)
next
  case CallDestroy
  then show ?thesis
    by (simp add: destroy_def stopListening_def removeEventListener_def)
qed (use assms in \<open>simp_all add: moveForward_def moveBackward_def moveLeft_def moveRight_def\<close>)

lemma run_speeds:
  "list_all (\<lambda>s. \<not> isAssignment s) ss \<Longrightarrow>
     moveSpeed (controller (run N P ss w)) = moveSpeed (controller w) \<and>
     airControlModifier (controller (run N P ss w)) = airControlModifier (controller w)"
proof (induction ss arbitrary: w)
  case Nil
  show ?case by (simp add: run_def)
next
  case (Cons s ss)
  from Cons.prems have s: "\<not> isAssignment s" and ss: "list_all (\<lambda>s. \<not> isAssignment s) ss"
    by simp_all
  have "run N P (s # ss) w = run N P ss (step N P s w)"
    by (simp add: run_def)
  then show ?case
    using Cons.IH [OF ss, of "step N P s w"] step_speeds [OF s, of N P w] by simp
qed

text \<open>
  Claim C5. Whenever \<^verbatim>\<open>update\<close> issues a move command, its speed is \<^verbatim>\<open>moveSpeed\<close>
  if the pawn answers \<^verbatim>\<open>isOnGround()\<close> with true, and
  \<^verbatim>\<open>moveSpeed * airControlModifier\<close> otherwise. The constructor sets the two fields to
  5 and 0.5 and nothing in the controller assigns them afterwards, so as long as no
  caller assigns these public fields the factor is 0.5, below 1, and the airborne speed
  is 2.5.
\<close>

theorem commanded_speed_grounded_or_airborne:
  "map (\<lambda>(d, speed, t). speed) (moves (issued w (update N P dt w))) =
     (if vec_x (moveDirection (inputState (controller w))) = 0 \<and>
         vec_z (moveDirection (inputState (controller w))) = 0
      then []
      else [if isOnGround P (pawn w) then moveSpeed (controller w)
            else moveSpeed (controller w) * airControlModifier (controller w)])
   \<and> (list_all (\<lambda>s. \<not> isAssignment s) ss \<longrightarrow>
        moveSpeed (controller (run N P ss (newPlayerController p))) = 5 \<and>
        airControlModifier (controller (run N P ss (newPlayerController p))) = 1/2 \<and>
        airControlModifier (controller (run N P ss (newPlayerController p))) < 1 \<and>
        moveSpeed (controller (run N P ss (newPlayerController p))) *
          airControlModifier (controller (run N P ss (newPlayerController p))) = 5/2)"
proof (intro conjI impI)
  show "map (\<lambda>(d, speed, t). speed) (moves (issued w (update N P dt w))) =
     (if vec_x (moveDirection (inputState (controller w))) = 0 \<and>
         vec_z (moveDirection (inputState (controller w))) = 0
      then []
      else [if isOnGround P (pawn w) then moveSpeed (controller w)
            else moveSpeed (controller w) * airControlModifier (controller w)])"
    by (simp add: update_moves)
next
  assume "list_all (\<lambda>s. \<not> isAssignment s) ss"
  then have r: "moveSpeed (controller (run N P ss (newPlayerController p))) = 5 \<and>
        airControlModifier (controller (run N P ss (newPlayerController p))) = 1/2"
    using run_speeds [of ss N P "newPlayerController p"] by (simp add: new_controller)
  from r show "moveSpeed (controller (run N P ss (newPlayerController p))) = 5" by simp
  from r show "airControlModifier (controller (run N P ss (newPlayerController p))) = 1/2" by simp
  from r show "airControlModifier (controller (run N P ss (newPlayerController p))) < 1" by simp
  from r show "moveSpeed (controller (run N P ss (newPlayerController p))) *
          airControlModifier (controller (run N P ss (newPlayerController p))) = 5/2" by simp
qed

text \<open>
  With forward held, the example pawn is commanded to move at 5 on the ground and at
  2.5 in the air.
\<close>

theorem commanded_speed_grounded_or_airborne_witness:
  "map (\<lambda>(d, speed, t). speed)
     (moves (issued (pressed [''KeyW''] pawnOnGround)
        (update normalizeVector examplePlayer (1/60) (pressed [''KeyW''] pawnOnGround)))) = [5]
   \<and> map (\<lambda>(d, speed, t). speed)
     (moves (issued (pressed [''KeyW''] pawnInAir)
        (update normalizeVector examplePlayer (1/60) (pressed [''KeyW''] pawnInAir)))) = [5/2]
   \<and> airControlModifier (controller (run normalizeVector examplePlayer
        [KeyEvent ''keydown'' ''KeyW'', Frame (1/60), CallJump] (newPlayerController pawnInAir))) = 1/2"
  using commanded_speed_grounded_or_airborne
          [of "pressed [''KeyW''] pawnOnGround" normalizeVector examplePlayer "1/60" "[]"]
        commanded_speed_grounded_or_airborne
          [of "pressed [''KeyW''] pawnInAir" normalizeVector examplePlayer "1/60"
              "[KeyEvent ''keydown'' ''KeyW'', Frame (1/60), CallJump]" pawnInAir]
  by (simp add: pressed_controller pressed_pawn onKeyDown_def moveDirection_eq
      examplePlayer_def pawnOnGround_def pawnInAir_def)

section \<open>The time step of a move command\<close>

text \<open>
  Claim C7. The \<^verbatim>\<open>dt\<close> of a move command is the \<^verbatim>\<open>dt\<close> given to \<^verbatim>\<open>update\<close>; so
  for every input state the move commands of \<^verbatim>\<open>update(0)\<close>, if any, have the
  product of speed and \<^verbatim>\<open>dt\<close> equal to zero.
\<close>

theorem zero_dt_gives_zero_displacement:
  "map (\<lambda>(d, speed, t). t) (moves (issued w (update N P dt w))) =
     (if vec_x (moveDirection (inputState (controller w))) = 0 \<and>
         vec_z (moveDirection (inputState (controller w))) = 0
      then [] else [dt])
   \<and> list_all (\<lambda>(d, speed, t). speed * t = 0) (moves (issued w (update N P 0 w)))"
  by (simp add: update_moves)

text \<open>
  With forward and right held, \<^verbatim>\<open>update(0)\<close> commands one move, with \<^verbatim>\<open>dt\<close> and
  speed times \<^verbatim>\<open>dt\<close> both 0.
\<close>

theorem zero_dt_gives_zero_displacement_witness:
  "map (\<lambda>(d, speed, t). t)
     (moves (issued (pressed [''KeyW'', ''KeyD''] pawnOnGround)
        (update normalizeVector examplePlayer 0 (pressed [''KeyW'', ''KeyD''] pawnOnGround)))) = [0]
   \<and> map (\<lambda>(d, speed, t). speed * t)
     (moves (issued (pressed [''KeyW'', ''KeyD''] pawnOnGround)
        (update normalizeVector examplePlayer 0 (pressed [''KeyW'', ''KeyD''] pawnOnGround)))) = [0]"
  using zero_dt_gives_zero_displacement
          [of "pressed [''KeyW'', ''KeyD''] pawnOnGround" normalizeVector examplePlayer 0]
  by (simp add: pressed_controller onKeyDown_def moveDirection_eq update_moves)

section \<open>No normalization of the zero vector\<close>

text \<open>
  Claim C10. In every call of \<^verbatim>\<open>update\<close>, \<^verbatim>\<open>normalize\<close> is called at most once,
  on the accumulated direction vector and only when its \<open>x\<close> or its \<open>z\<close> component
  is not zero; so the length of every vector that is normalized is not zero.
\<close>

theorem normalize_only_called_on_nonzero_vector:
  "normalized (issued w (update N P dt w)) =
     (if vec_x (moveDirection (inputState (controller w))) = 0 \<and>
         vec_z (moveDirection (inputState (controller w))) = 0
      then [] else [moveDirection (inputState (controller w))])
   \<and> list_all (\<lambda>v. (vec_x v \<noteq> 0 \<or> vec_z v \<noteq> 0) \<and> magnitude v \<noteq> 0)
        (normalized (issued w (update N P dt w)))"
proof (cases "vec_x (moveDirection (inputState (controller w))) = 0 \<and>
       vec_z (moveDirection (inputState (controller w))) = 0")
  case True
  then show ?thesis
    by (simp add: update_normalized)
next
  case False
  then have "magnitude (moveDirection (inputState (controller w))) \<noteq> 0"
    using magnitude_nonzero by blast
  with False show ?thesis
    unfolding update_normalized if_not_P [OF False] by simp
qed

text \<open>
  Forward and backward held: nothing is normalized. Forward and left held: the vector
  \<open>(-1, 0, 1)\<close> is.
\<close>

theorem normalize_only_called_on_nonzero_vector_witness:
  "normalized (issued (pressed [''KeyW'', ''KeyS''] pawnOnGround)
     (update normalizeVector examplePlayer (1/60) (pressed [''KeyW'', ''KeyS''] pawnOnGround))) = []
   \<and> normalized (issued (pressed [''KeyW'', ''KeyA''] pawnOnGround)
     (update normalizeVector examplePlayer (1/60) (pressed [''KeyW'', ''KeyA''] pawnOnGround))) =
     [\<lparr>vec_x = - 1, vec_y = 0, vec_z = 1\<rparr>]"
  using normalize_only_called_on_nonzero_vector
          [of "pressed [''KeyW'', ''KeyS''] pawnOnGround" normalizeVector examplePlayer "1/60"]
        normalize_only_called_on_nonzero_vector
          [of "pressed [''KeyW'', ''KeyA''] pawnOnGround" normalizeVector examplePlayer "1/60"]
  by (simp add: pressed_controller onKeyDown_def moveDirection_eq)

section \<open>The key handlers against the key table\<close>

lemma applyKey_flag:
  "flag a (inputState (applyKey b code c)) =
     (if boundAction code = Some a then b else flag a (inputState c))"
  by (cases "boundAction code") (auto simp: applyKey_def flag_setFlag)

lemma applyKey_idem: "applyKey b code (applyKey b code c) = applyKey b code c"
  by (cases "boundAction code") (simp_all add: applyKey_def setFlag_setFlag)

lemma setFlag_same: "flag a i = b \<Longrightarrow> setFlag a b i = i"
  by (cases a) auto

lemma applyKey_noop:
  "boundAction code = Some a \<Longrightarrow> flag a (inputState c) = b \<Longrightarrow> applyKey b code c = c"
  by (simp add: applyKey_def setFlag_same)

lemma applyKey_speeds:
  "moveSpeed (applyKey b code c) = moveSpeed c \<and>
   airControlModifier (applyKey b code c) = airControlModifier c"
  by (cases "boundAction code") (simp_all add: applyKey_def)

text \<open>
  Claim C6. For every key code, \<^verbatim>\<open>onKeyDown\<close> sets and \<^verbatim>\<open>onKeyUp\<close> clears exactly
  the flag that the key table binds to the code (\<open>boundAction\<close>), whatever the flag was
  before, and changes nothing else of the controller. A repeated event changes nothing
  more, an event for a flag that is already set (or already cleared) changes nothing at
  all, a code the table does not know leaves the controller as it is, and a key-down
  followed by the key-up of the same key leaves every other flag as it was.
\<close>

theorem key_handlers_set_and_clear_bound_flag:
  "onKeyDown code c = applyKey True code c
   \<and> onKeyUp code c = applyKey False code c
   \<and> (\<forall>a. flag a (inputState (onKeyDown code c)) =
            (if boundAction code = Some a then True else flag a (inputState c)))
   \<and> (\<forall>a. flag a (inputState (onKeyUp code c)) =
            (if boundAction code = Some a then False else flag a (inputState c)))
   \<and> moveSpeed (onKeyDown code c) = moveSpeed c
   \<and> airControlModifier (onKeyDown code c) = airControlModifier c
   \<and> moveSpeed (onKeyUp code c) = moveSpeed c
   \<and> airControlModifier (onKeyUp code c) = airControlModifier c
   \<and> onKeyDown code (onKeyDown code c) = onKeyDown code c
   \<and> onKeyUp code (onKeyUp code c) = onKeyUp code c
   \<and> (\<forall>a. boundAction code = Some a \<and> flag a (inputState c) \<longrightarrow> onKeyDown code c = c)
   \<and> (\<forall>a. boundAction code = Some a \<and> \<not> flag a (inputState c) \<longrightarrow> onKeyUp code c = c)
   \<and> (boundAction code = None \<longrightarrow> onKeyDown code c = c \<and> onKeyUp code c = c)
   \<and> (\<forall>a. boundAction code \<noteq> Some a \<longrightarrow>
          flag a (inputState (onKeyUp code (onKeyDown code c))) = flag a (inputState c))"
proof (intro conjI allI impI)
  show "onKeyDown code c = applyKey True code c"
    by (rule onKeyDown_applyKey)
  show "onKeyUp code c = applyKey False code c"
    by (rule onKeyUp_applyKey)
  show "flag a (inputState (onKeyDown code c)) =
            (if boundAction code = Some a then True else flag a (inputState c))" for a
    by (simp only: onKeyDown_applyKey applyKey_flag)
  show "flag a (inputState (onKeyUp code c)) =
            (if boundAction code = Some a then False else flag a (inputState c))" for a
    by (simp only: onKeyUp_applyKey applyKey_flag)
  show "moveSpeed (onKeyDown code c) = moveSpeed c"
    by (simp add: onKeyDown_applyKey applyKey_speeds)
  show "airControlModifier (onKeyDown code c) = airControlModifier c"
    by (simp add: onKeyDown_applyKey applyKey_speeds)
  show "moveSpeed (onKeyUp code c) = moveSpeed c"
    by (simp add: onKeyUp_applyKey applyKey_speeds)
  show "airControlModifier (onKeyUp code c) = airControlModifier c"
    by (simp add: onKeyUp_applyKey applyKey_speeds)
  show "onKeyDown code (onKeyDown code c) = onKeyDown code c"
    by (simp add: onKeyDown_applyKey applyKey_idem)
  show "onKeyUp code (onKeyUp code c) = onKeyUp code c"
    by (simp add: onKeyUp_applyKey applyKey_idem)
  show "onKeyDown code c = c" if "boundAction code = Some a \<and> flag a (inputState c)" for a
    using that by (simp add: onKeyDown_applyKey applyKey_noop)
  show "onKeyUp code c = c" if "boundAction code = Some a \<and> \<not> flag a (inputState c)" for a
    using that by (simp add: onKeyUp_applyKey applyKey_noop)
  show "onKeyDown code c = c" if "boundAction code = None"
    using that by (simp add: onKeyDown_applyKey applyKey_def)
  show "onKeyUp code c = c" if "boundAction code = None"
    using that by (simp add: onKeyUp_applyKey applyKey_def)
  show "flag a (inputState (onKeyUp code (onKeyDown code c))) = flag a (inputState c)"
    if "boundAction code \<noteq> Some a" for a
    using that by (simp add: onKeyUp_applyKey onKeyDown_applyKey applyKey_flag)
qed

text \<open>
  The key W sets and clears \<open>forward\<close> only; the unknown code \<open>KeyQ\<close> and the
  lower-case \<open>keyw\<close> change nothing, and neither does Space while jump is held.
\<close>

theorem key_handlers_set_and_clear_bound_flag_witness:
  "inputState (onKeyDown ''KeyW'' (controller (newPlayerController pawnOnGround))) =
     \<lparr>forward = True, backward = False, left = False, right = False, jump = False, shoot = False\<rparr>
   \<and> onKeyUp ''KeyW'' (onKeyDown ''KeyW'' (controller (newPlayerController pawnOnGround))) =
       controller (newPlayerController pawnOnGround)
   \<and> onKeyUp ''KeyW'' (controller (pressed [''KeyW'', ''Space'', ''ArrowLeft''] pawnOnGround)) =
       controller (pressed [''Space'', ''ArrowLeft''] pawnOnGround)
   \<and> onKeyDown ''KeyQ'' (controller (newPlayerController pawnOnGround)) =
       controller (newPlayerController pawnOnGround)
   \<and> onKeyUp ''keyw'' (controller (pressed [''KeyW''] pawnOnGround)) =
       controller (pressed [''KeyW''] pawnOnGround)
   \<and> onKeyDown ''Space'' (controller (pressed [''Space''] pawnOnGround)) =
       controller (pressed [''Space''] pawnOnGround)"
proof -
  have unbound: "boundAction ''KeyQ'' = None" "boundAction ''keyw'' = None"
    by (simp_all add: boundAction_cases)
  have bound: "boundAction ''Space'' = Some AJump"
    by (simp add: boundAction_cases)
  have held: "flag AJump (inputState (controller (pressed [''Space''] pawnOnGround)))"
    by (simp add: pressed_controller onKeyDown_def)
  have "onKeyDown ''KeyQ'' (controller (newPlayerController pawnOnGround)) =
       controller (newPlayerController pawnOnGround)"
    using key_handlers_set_and_clear_bound_flag
            [of "''KeyQ''" "controller (newPlayerController pawnOnGround)"] unbound
    by blast
  moreover have "onKeyUp ''keyw'' (controller (pressed [''KeyW''] pawnOnGround)) =
       controller (pressed [''KeyW''] pawnOnGround)"
    using key_handlers_set_and_clear_bound_flag
            [of "''keyw''" "controller (pressed [''KeyW''] pawnOnGround)"] unbound
    by blast
  moreover have "onKeyDown ''Space'' (controller (pressed [''Space''] pawnOnGround)) =
       controller (pressed [''Space''] pawnOnGround)"
    using key_handlers_set_and_clear_bound_flag
            [of "''Space''" "controller (pressed [''Space''] pawnOnGround)"] bound held
    by blast
  ultimately show ?thesis
    by (simp add: new_controller pressed_controller onKeyDown_def onKeyUp_def)
qed

section \<open>The manual setters\<close>

lemma fold_setters_keep:
  "set fs \<subseteq> {moveForward, moveBackward, moveLeft, moveRight} \<Longrightarrow>
   flag a (inputState c) \<Longrightarrow> flag a (inputState (fold (\<lambda>f. f) fs c))"
proof (induction fs arbitrary: c)
  case Nil
  then show ?case by simp
next
  case (Cons f fs)
  from Cons.prems(1) have f: "f \<in> {moveForward, moveBackward, moveLeft, moveRight}"
    and fs: "set fs \<subseteq> {moveForward, moveBackward, moveLeft, moveRight}"
    by simp_all
  from f Cons.prems(2) have "flag a (inputState (f c))"
    by (cases a) (auto simp: moveForward_def moveBackward_def moveLeft_def moveRight_def)
  with fs show ?case
    by (simp add: Cons.IH)
qed

text \<open>
  Claim C8. \<^verbatim>\<open>moveForward()\<close>, \<^verbatim>\<open>moveBackward()\<close>, \<^verbatim>\<open>moveLeft()\<close> and
  \<^verbatim>\<open>moveRight()\<close> each set their own flag and leave every other flag and the two
  speed fields as they were. No sequence of these calls clears a flag that is held.
  The keyboard path does clear: the key-up of the bound key resets a flag that a
  manual setter has set.
\<close>

theorem manual_setters_only_set:
  "(\<forall>a. flag a (inputState (moveForward c)) = (a = AForward \<or> flag a (inputState c)))
   \<and> (\<forall>a. flag a (inputState (moveBackward c)) = (a = ABackward \<or> flag a (inputState c)))
   \<and> (\<forall>a. flag a (inputState (moveLeft c)) = (a = ALeft \<or> flag a (inputState c)))
   \<and> (\<forall>a. flag a (inputState (moveRight c)) = (a = ARight \<or> flag a (inputState c)))
   \<and> moveSpeed (moveForward c) = moveSpeed c
   \<and> airControlModifier (moveForward c) = airControlModifier c
   \<and> moveSpeed (moveBackward c) = moveSpeed c
   \<and> airControlModifier (moveBackward c) = airControlModifier c
   \<and> moveSpeed (moveLeft c) = moveSpeed c
   \<and> airControlModifier (moveLeft c) = airControlModifier c
   \<and> moveSpeed (moveRight c) = moveSpeed c
   \<and> airControlModifier (moveRight c) = airControlModifier c
   \<and> (set fs \<subseteq> {moveForward, moveBackward, moveLeft, moveRight} \<and> flag b (inputState c)
        \<longrightarrow> flag b (inputState (fold (\<lambda>f. f) fs c)))
   \<and> \<not> forward (inputState (onKeyUp ''KeyW'' (moveForward c)))
   \<and> \<not> backward (inputState (onKeyUp ''KeyS'' (moveBackward c)))
   \<and> \<not> left (inputState (onKeyUp ''KeyA'' (moveLeft c)))
   \<and> \<not> right (inputState (onKeyUp ''KeyD'' (moveRight c)))"
proof (intro conjI allI impI)
  show "flag a (inputState (moveForward c)) = (a = AForward \<or> flag a (inputState c))" for a
    by (cases a) (simp_all add: moveForward_def)
  show "flag a (inputState (moveBackward c)) = (a = ABackward \<or> flag a (inputState c))" for a
    by (cases a) (simp_all add: moveBackward_def)
  show "flag a (inputState (moveLeft c)) = (a = ALeft \<or> flag a (inputState c))" for a
    by (cases a) (simp_all add: moveLeft_def)
  show "flag a (inputState (moveRight c)) = (a = ARight \<or> flag a (inputState c))" for a
    by (cases a) (simp_all add: moveRight_def)
  show "flag b (inputState (fold (\<lambda>f. f) fs c))"
    if "set fs \<subseteq> {moveForward, moveBackward, moveLeft, moveRight} \<and> flag b (inputState c)"
    using that fold_setters_keep by blast
qed (simp_all add: moveForward_def moveBackward_def moveLeft_def moveRight_def onKeyUp_def)

text \<open>
  \<^verbatim>\<open>moveForward()\<close> on a fresh controller holds \<open>forward\<close> only; with jump held,
  manual calls keep jump held; the key-up of W releases \<open>forward\<close> again.
\<close>

theorem manual_setters_only_set_witness:
  "inputState (moveForward (controller (newPlayerController pawnOnGround))) =
     \<lparr>forward = True, backward = False, left = False, right = False, jump = False, shoot = False\<rparr>
   \<and> inputState (moveForward (moveForward (controller (pressed [''Space''] pawnOnGround)))) =
     \<lparr>forward = True, backward = False, left = False, right = False, jump = True, shoot = False\<rparr>
   \<and> jump (inputState (fold (\<lambda>f. f) [moveLeft, moveForward, moveLeft]
        (controller (pressed [''Space''] pawnOnGround))))
   \<and> forward (inputState (onKeyUp ''KeyW''
        (moveForward (controller (newPlayerController pawnOnGround))))) = False"
  using manual_setters_only_set [of "controller (newPlayerController pawnOnGround)" "[]" AJump]
        manual_setters_only_set [of "controller (pressed [''Space''] pawnOnGround)"
          "[moveLeft, moveForward, moveLeft]" AJump]
  by (simp add: new_controller pressed_controller onKeyDown_def onKeyUp_def
      moveForward_def moveLeft_def)

section \<open>Key events after destroy\<close>

lemma step_listeners_subset: "set (listeners (step N P s w) ty) \<subseteq> set (listeners w ty)"
proof (cases s)
  case (KeyEvent ty' code)
  then show ?thesis
    by (simp add: dispatchEvent_def)
next
  case (Frame dt)
  then show ?thesis
    by (simp add: update_listeners)
next
  case CallJump
  then show ?thesis
    by (simp add: ctrl_jump_listeners)
next
  case CallShoot
  then show ?thesis
    by (simp add: ctrl_shoot_listeners)
next
  case CallDestroy
  then show ?thesis
    by (auto simp: destroy_def stopListening_def removeEventListener_def)
qed simp_all

lemma run_listeners_subset: "set (listeners (run N P ss w) ty) \<subseteq> set (listeners w ty)"
proof (induction ss arbitrary: w)
  case Nil
  show ?case by (simp add: run_def)
next
  case (Cons s ss)
  have "set (listeners (run N P ss (step N P s w)) ty) \<subseteq> set (listeners (step N P s w) ty)"
    by (rule Cons.IH)
  also have "\<dots> \<subseteq> set (listeners w ty)"
    by (rule step_listeners_subset)
  finally show ?case
    by (simp add: run_def)
qed

lemma destroy_detaches:
  "listeners (destroy (run N P pre (newPlayerController p))) = (\<lambda>ty. [])"
proof
  fix ty
  let ?w = "run N P pre (newPlayerController p)"
  have sub: "set (listeners ?w ty) \<subseteq> set (listeners (newPlayerController p) ty)"
    by (rule run_listeners_subset)
  show "listeners (destroy ?w) ty = []"
  proof (cases "ty = ''keydown''")
    case True
    with sub have "set (listeners ?w ''keydown'') \<subseteq> {OnKeyDownHandler}"
      by (simp add: new_listeners)
    then have "removeAll OnKeyDownHandler (listeners ?w ''keydown'') = []"
      by (metis removeAll_id removeAll.simps(1) set_removeAll Diff_eq_empty_iff set_empty)
    with True show ?thesis
      by (simp add: destroy_def stopListening_def removeEventListener_def)
  next
    case False
    note notdown = this
    show ?thesis
    proof (cases "ty = ''keyup''")
      case True
      with sub have "set (listeners ?w ''keyup'') \<subseteq> {OnKeyUpHandler}"
        by (simp add: new_listeners)
      then have "removeAll OnKeyUpHandler (listeners ?w ''keyup'') = []"
        by (metis removeAll_id removeAll.simps(1) set_removeAll Diff_eq_empty_iff set_empty)
      with True show ?thesis
        by (simp add: destroy_def stopListening_def removeEventListener_def)
    next
      case False
      with notdown sub have "listeners ?w ty = []"
        by (simp add: new_listeners)
      with False notdown show ?thesis
        by (simp add: destroy_def stopListening_def removeEventListener_def)
    qed
  qed
qed

lemma detached_step:
  assumes "listeners w = (\<lambda>ty. [])"
  shows "listeners (step N P s w) = (\<lambda>ty. [])"
proof
  fix ty
  have "set (listeners (step N P s w) ty) \<subseteq> set (listeners w ty)"
    by (rule step_listeners_subset)
  with assms show "listeners (step N P s w) ty = []"
    by simp
qed

lemma detached_key_event:
  assumes "listeners w = (\<lambda>ty. [])"
  shows "dispatchEvent ty code w = w"
  using assms by (simp add: dispatchEvent_def)

lemma detached_run:
  "listeners w = (\<lambda>ty. []) \<Longrightarrow>
     run N P post w = run N P (filter (\<lambda>s. \<not> isKeyEvent s) post) w"
proof (induction post arbitrary: w)
  case Nil
  show ?case by simp
next
  case (Cons s post)
  show ?case
  proof (cases "isKeyEvent s")
    case True
    then obtain ty code where s: "s = KeyEvent ty code"
      by (cases s) simp_all
    have "step N P s w = w"
      using Cons.prems by (simp add: s detached_key_event)
    then have "run N P (s # post) w = run N P post w"
      by (simp add: run_def)
    with True Cons.IH [OF Cons.prems] show ?thesis
      by simp
  next
    case False
    have "run N P (s # post) w = run N P post (step N P s w)"
      by (simp add: run_def)
    also have "\<dots> = run N P (filter (\<lambda>s. \<not> isKeyEvent s) post) (step N P s w)"
      by (rule Cons.IH) (rule detached_step [OF Cons.prems])
    also have "\<dots> = run N P (filter (\<lambda>s. \<not> isKeyEvent s) (s # post)) w"
      using False by (simp add: run_def)
    finally show ?thesis .
  qed
qed

text \<open>
  Claim C9. Take a controller fresh from its constructor, any history of events, frames
  and calls, and then \<^verbatim>\<open>destroy()\<close>. The window then holds none of the controller's
  handlers, an event delivered afterwards changes nothing, any later history runs as it
  would with its key events left out, and a frame after later key events issues what
  it would issue without them.
\<close>

theorem key_events_after_destroy_change_nothing:
  "listeners (destroy (run N P pre (newPlayerController p))) = (\<lambda>ty. [])
   \<and> dispatchEvent ty code (destroy (run N P pre (newPlayerController p))) =
       destroy (run N P pre (newPlayerController p))
   \<and> run N P post (destroy (run N P pre (newPlayerController p))) =
       run N P (filter (\<lambda>s. \<not> isKeyEvent s) post) (destroy (run N P pre (newPlayerController p)))
   \<and> update N P dt (run N P (filter isKeyEvent post) (destroy (run N P pre (newPlayerController p)))) =
       update N P dt (destroy (run N P pre (newPlayerController p)))"
proof (intro conjI)
  let ?w = "destroy (run N P pre (newPlayerController p))"
  show d: "listeners ?w = (\<lambda>ty. [])"
    by (rule destroy_detaches)
  show "dispatchEvent ty code ?w = ?w"
    by (rule detached_key_event [OF d])
  show "run N P post ?w = run N P (filter (\<lambda>s. \<not> isKeyEvent s) post) ?w"
    by (rule detached_run [OF d])
  have "run N P (filter isKeyEvent post) ?w =
        run N P (filter (\<lambda>s. \<not> isKeyEvent s) (filter isKeyEvent post)) ?w"
    by (rule detached_run [OF d])
  also have "\<dots> = ?w"
    by (simp add: run_def)
  finally show "update N P dt (run N P (filter isKeyEvent post) ?w) = update N P dt ?w"
    by simp
qed

text \<open>
  Left is held when the controller is destroyed: the later key-up of A and key-downs of
  W and Space change no flag. A controller destroyed at once issues nothing in a frame
  after key-downs of W and Space, though the same events on a live controller set
  \<open>forward\<close> and \<open>jump\<close>.
\<close>

theorem key_events_after_destroy_change_nothing_witness:
  "inputState (controller (run normalizeVector examplePlayer
       [KeyEvent ''keydown'' ''KeyA'', CallDestroy,
        KeyEvent ''keyup'' ''KeyA'', KeyEvent ''keydown'' ''KeyW'', KeyEvent ''keydown'' ''Space'']
       (newPlayerController pawnOnGround))) =
     \<lparr>forward = False, backward = False, left = True, right = False, jump = False, shoot = False\<rparr>
   \<and> issued (newPlayerController pawnOnGround)
       (run normalizeVector examplePlayer
         [CallDestroy, KeyEvent ''keydown'' ''KeyW'', KeyEvent ''keydown'' ''Space'', Frame (1/60)]
         (newPlayerController pawnOnGround)) = []
   \<and> inputState (controller (run normalizeVector examplePlayer
       [KeyEvent ''keydown'' ''KeyW'', KeyEvent ''keydown'' ''Space'']
       (newPlayerController pawnOnGround))) =
     \<lparr>forward = True, backward = False, left = False, right = False, jump = True, shoot = False\<rparr>"
proof -
  let ?new = "newPlayerController pawnOnGround"
  let ?run = "run normalizeVector examplePlayer"
  have "?run [KeyEvent ''keydown'' ''KeyA'', CallDestroy,
        KeyEvent ''keyup'' ''KeyA'', KeyEvent ''keydown'' ''KeyW'', KeyEvent ''keydown'' ''Space'']
       ?new =
     ?run [KeyEvent ''keyup'' ''KeyA'', KeyEvent ''keydown'' ''KeyW'', KeyEvent ''keydown'' ''Space'']
       (destroy (?run [KeyEvent ''keydown'' ''KeyA''] ?new))"
    by (simp add: run_def)
  also have "\<dots> =
     ?run (filter (\<lambda>s. \<not> isKeyEvent s)
        [KeyEvent ''keyup'' ''KeyA'', KeyEvent ''keydown'' ''KeyW'', KeyEvent ''keydown'' ''Space''])
       (destroy (?run [KeyEvent ''keydown'' ''KeyA''] ?new))"
    by (rule key_events_after_destroy_change_nothing
          [THEN conjunct2, THEN conjunct2, THEN conjunct1])
  also have "\<dots> = destroy (?run [KeyEvent ''keydown'' ''KeyA''] ?new)"
    by (simp add: run_def)
  finally have a: "?run [KeyEvent ''keydown'' ''KeyA'', CallDestroy,
        KeyEvent ''keyup'' ''KeyA'', KeyEvent ''keydown'' ''KeyW'', KeyEvent ''keydown'' ''Space'']
       ?new = destroy (?run [KeyEvent ''keydown'' ''KeyA''] ?new)" .
  have "?run [CallDestroy, KeyEvent ''keydown'' ''KeyW'', KeyEvent ''keydown'' ''Space'', Frame (1/60)]
         ?new =
     ?run [KeyEvent ''keydown'' ''KeyW'', KeyEvent ''keydown'' ''Space'', Frame (1/60)]
       (destroy (?run [] ?new))"
    by (simp add: run_def)
  also have "\<dots> =
     ?run (filter (\<lambda>s. \<not> isKeyEvent s)
        [KeyEvent ''keydown'' ''KeyW'', KeyEvent ''keydown'' ''Space'', Frame (1/60)])
       (destroy (?run [] ?new))"
    by (rule key_events_after_destroy_change_nothing
          [THEN conjunct2, THEN conjunct2, THEN conjunct1])
  also have "\<dots> = update normalizeVector examplePlayer (1/60) (destroy ?new)"
    by (simp add: run_def)
  finally have b: "?run
         [CallDestroy, KeyEvent ''keydown'' ''KeyW'', KeyEvent ''keydown'' ''Space'', Frame (1/60)]
         ?new = update normalizeVector examplePlayer (1/60) (destroy ?new)" .
  show ?thesis
    unfolding a b
    by (simp add: run_def dispatchEvent_def new_listeners new_controller new_calls onKeyDown_def
        destroy_def stopListening_def removeEventListener_def issued_def
        update_def handleMovement_def handleActions_def moveDirection_eq Let_def)
qed

end
